theory Spec2Isabelle
  imports Main "HOL-Library.Char_ord" "HOL-Library.List_Lexorder" "HOL-Library.Multiset"
begin

unbundle bit_operations_syntax

section \<open>Platform primitives used by the giveaway code\<close>

text \<open>
  The repository contains two implementations of the commit-reveal giveaway:
  \<^item> \<^verbatim>\<open>runGiveaway\<close>, the handler of the form component
    (\<^verbatim>\<open>src/components/GiveawayForm.tsx\<close>, lines 43-215), which is the one the
    application renders, and
  \<^item> the library functions \<^verbatim>\<open>selectWinner\<close>, \<^verbatim>\<open>verifyReveals\<close>,
    \<^verbatim>\<open>hashParticipants\<close>, \<^verbatim>\<open>generateVerificationHash\<close> and
    \<^verbatim>\<open>verifyResult\<close> (lines 376-603 of the same file).

  Both rest on a few functions of the JavaScript platform. They are modelled here first.
  JavaScript strings are modelled as \<^typ>\<open>string\<close>, read as the UTF-8 bytes of the
  text; for ASCII text, which is what addresses, hex digests and UUIDs are, a
  \<^typ>\<open>char\<close> is one UTF-16 code unit and one byte at once. A JavaScript Number that
  holds a count or a time stamp is a \<^typ>\<open>nat\<close>; a Number that may be \<^verbatim>\<open>NaN\<close>
  is an \<^typ>\<open>int option\<close> with \<^term>\<open>None\<close> for \<^verbatim>\<open>NaN\<close>; a value that may be
  \<^verbatim>\<open>undefined\<close> is an option with \<^term>\<open>None\<close> for \<^verbatim>\<open>undefined\<close>.
\<close>

subsection \<open>SHA-256 (\<^verbatim>\<open>crypto.subtle.digest('SHA-256', data)\<close>)\<close>

text \<open>
  The digest is the SHA-256 function of FIPS 180-4 on byte sequences. 32-bit words are
  natural numbers below \<open>2 ^ 32\<close>, with the reduction modulo \<open>2 ^ 32\<close> written out at
  each addition; bytes are natural numbers below 256.
\<close>

definition add32 :: "nat \<Rightarrow> nat \<Rightarrow> nat" where
  "add32 x y = (x + y) mod 4294967296"

definition rotr32 :: "nat \<Rightarrow> nat \<Rightarrow> nat" where
  "rotr32 n x = x div 2 ^ n + (x mod 2 ^ n) * 2 ^ (32 - n)"

definition shr32 :: "nat \<Rightarrow> nat \<Rightarrow> nat" where
  "shr32 n x = x div 2 ^ n"

definition choose32 :: "nat \<Rightarrow> nat \<Rightarrow> nat \<Rightarrow> nat" where
  "choose32 x y z = (x AND y) XOR ((4294967295 - x) AND z)"

definition majority32 :: "nat \<Rightarrow> nat \<Rightarrow> nat \<Rightarrow> nat" where
  "majority32 x y z = (x AND y) XOR (x AND z) XOR (y AND z)"

definition big_sigma0 :: "nat \<Rightarrow> nat" where
  "big_sigma0 x = rotr32 2 x XOR rotr32 13 x XOR rotr32 22 x"

definition big_sigma1 :: "nat \<Rightarrow> nat" where
  "big_sigma1 x = rotr32 6 x XOR rotr32 11 x XOR rotr32 25 x"

definition small_sigma0 :: "nat \<Rightarrow> nat" where
  "small_sigma0 x = rotr32 7 x XOR rotr32 18 x XOR shr32 3 x"

definition small_sigma1 :: "nat \<Rightarrow> nat" where
  "small_sigma1 x = rotr32 17 x XOR rotr32 19 x XOR shr32 10 x"

text \<open>The 64 round constants, eight to a row, and the initial hash value.\<close>

definition round_constants :: "nat list" where
  "round_constants = concat
    [[0x428a2f98, 0x71374491, 0xb5c0fbcf, 0xe9b5dba5, 0x3956c25b, 0x59f111f1, 0x923f82a4, 0xab1c5ed5],
     [0xd807aa98, 0x12835b01, 0x243185be, 0x550c7dc3, 0x72be5d74, 0x80deb1fe, 0x9bdc06a7, 0xc19bf174],
     [0xe49b69c1, 0xefbe4786, 0x0fc19dc6, 0x240ca1cc, 0x2de92c6f, 0x4a7484aa, 0x5cb0a9dc, 0x76f988da],
     [0x983e5152, 0xa831c66d, 0xb00327c8, 0xbf597fc7, 0xc6e00bf3, 0xd5a79147, 0x06ca6351, 0x14292967],
     [0x27b70a85, 0x2e1b2138, 0x4d2c6dfc, 0x53380d13, 0x650a7354, 0x766a0abb, 0x81c2c92e, 0x92722c85],
     [0xa2bfe8a1, 0xa81a664b, 0xc24b8b70, 0xc76c51a3, 0xd192e819, 0xd6990624, 0xf40e3585, 0x106aa070],
     [0x19a4c116, 0x1e376c08, 0x2748774c, 0x34b0bcb5, 0x391c0cb3, 0x4ed8aa4a, 0x5b9cca4f, 0x682e6ff3],
     [0x748f82ee, 0x78a5636f, 0x84c87814, 0x8cc70208, 0x90befffa, 0xa4506ceb, 0xbef9a3f7, 0xc67178f2]]"

type_synonym hash_state = "nat \<times> nat \<times> nat \<times> nat \<times> nat \<times> nat \<times> nat \<times> nat"

definition initial_hash :: hash_state where
  "initial_hash =
     (0x6a09e667, 0xbb67ae85, 0x3c6ef372, 0xa54ff53a, 0x510e527f, 0x9b05688c, 0x1f83d9ab, 0x5be0cd19)"

fun round_step :: "hash_state \<Rightarrow> nat \<Rightarrow> nat \<Rightarrow> hash_state" where
  "round_step (a, b, c, d, e, f, g, h) k w =
     (let t1 = add32 (add32 (add32 (add32 h (big_sigma1 e)) (choose32 e f g)) k) w;
          t2 = add32 (big_sigma0 a) (majority32 a b c)
      in (add32 t1 t2, a, b, c, add32 d t1, e, f, g))"

text \<open>
  The message schedule is kept as a window of the sixteen most recent words: round \<open>t\<close>
  consumes the head of the window and appends word \<open>t + 16\<close>.
\<close>

definition schedule_next :: "nat list \<Rightarrow> nat" where
  "schedule_next ws =
     add32 (add32 (add32 (small_sigma1 (ws ! 14)) (ws ! 9)) (small_sigma0 (ws ! 1))) (ws ! 0)"

fun run_rounds :: "hash_state \<Rightarrow> nat list \<Rightarrow> nat list \<Rightarrow> hash_state" where
  "run_rounds st ws [] = st"
| "run_rounds st ws (k # ks) =
     run_rounds (round_step st k (hd ws)) (tl ws @ [schedule_next ws]) ks"

fun add_state :: "hash_state \<Rightarrow> hash_state \<Rightarrow> hash_state" where
  "add_state (a, b, c, d, e, f, g, h) (a', b', c', d', e', f', g', h') =
     (add32 a a', add32 b b', add32 c c', add32 d d',
      add32 e e', add32 f f', add32 g g', add32 h h')"

fun be_words :: "nat list \<Rightarrow> nat list" where
  "be_words (b0 # b1 # b2 # b3 # bs) =
     (b0 * 16777216 + b1 * 65536 + b2 * 256 + b3) # be_words bs"
| "be_words _ = []"

definition compress :: "hash_state \<Rightarrow> nat list \<Rightarrow> hash_state" where
  "compress st ws = add_state st (run_rounds st ws round_constants)"

function hash_blocks :: "hash_state \<Rightarrow> nat list \<Rightarrow> hash_state" where
  "hash_blocks st bs =
     (if bs = [] then st
      else hash_blocks (compress st (be_words (take 64 bs))) (drop 64 bs))"
  by pat_completeness auto
termination
  by (relation "measure (\<lambda>p. length (snd p))") simp_all

declare hash_blocks.simps [simp del]

fun be_bytes :: "nat \<Rightarrow> nat \<Rightarrow> nat list" where
  "be_bytes 0 v = []"
| "be_bytes (Suc n) v = be_bytes n (v div 256) @ [v mod 256]"

definition pad_message :: "nat list \<Rightarrow> nat list" where
  "pad_message m =
     m @ [128] @ replicate ((119 - length m mod 64) mod 64) 0 @ be_bytes 8 (8 * length m)"

fun state_bytes :: "hash_state \<Rightarrow> nat list" where
  "state_bytes (a, b, c, d, e, f, g, h) =
     be_bytes 4 a @ be_bytes 4 b @ be_bytes 4 c @ be_bytes 4 d @
     be_bytes 4 e @ be_bytes 4 f @ be_bytes 4 g @ be_bytes 4 h"

definition sha256 :: "nat list \<Rightarrow> nat list" where
  "sha256 m = state_bytes (hash_blocks initial_hash (pad_message m))"

subsection \<open>Strings, arrays and numbers\<close>

text \<open>\<^verbatim>\<open>new TextEncoder().encode(s)\<close>: the UTF-8 bytes of the string.\<close>

definition encode :: "string \<Rightarrow> nat list" where
  "encode s = map of_char s"

text \<open>
  \<^verbatim>\<open>n.toString(r)\<close> for a non-negative integer \<open>n\<close> and a radix \<open>r\<close> from 2 to 16
  (the program uses 16, and 10 through \<^verbatim>\<open>toString()\<close>; the test \<open>r < 2\<close> is only there
  to make the recursion total), and \<^verbatim>\<open>s.padStart(n, c)\<close> for a one-character filler.
\<close>

definition digitChar :: "nat \<Rightarrow> char" where
  "digitChar d = ''0123456789abcdef'' ! d"

fun toStringRadix :: "nat \<Rightarrow> nat \<Rightarrow> string" where
  "toStringRadix r n =
     (if r < 2 \<or> n < r then [digitChar n]
      else toStringRadix r (n div r) @ [digitChar (n mod r)])"

declare toStringRadix.simps [simp del]

definition padStart :: "nat \<Rightarrow> char \<Rightarrow> string \<Rightarrow> string" where
  "padStart n c s = replicate (n - length s) c @ s"

text \<open>\<^verbatim>\<open>xs.join(sep)\<close> on an array of strings.\<close>

fun join :: "string \<Rightarrow> string list \<Rightarrow> string" where
  "join sep [] = []"
| "join sep [x] = x"
| "join sep (x # y # ys) = x @ sep @ join sep (y # ys)"

text \<open>
  \<^verbatim>\<open>hashArray.map(b => b.toString(16).padStart(2, '0')).join('')\<close>, the lower-case hex
  rendering that every hashing function of the repository ends with.
\<close>

definition toHex :: "nat list \<Rightarrow> string" where
  "toHex hashArray = join [] (map (\<lambda>b. padStart 2 (CHR ''0'') (toStringRadix 16 b)) hashArray)"

text \<open>\<^verbatim>\<open>s.slice(b, e)\<close> for \<open>0 \<le> b \<le> e\<close>; an end beyond the string is clamped.\<close>

definition slice :: "nat \<Rightarrow> nat \<Rightarrow> string \<Rightarrow> string" where
  "slice b e s = take (e - b) (drop b s)"

text \<open>
  White space as \<^verbatim>\<open>trim\<close> and \<^verbatim>\<open>parseInt\<close> strip it, restricted to the ASCII
  range: tab, line feed, vertical tab, form feed, carriage return and space.
\<close>

definition isWhiteSpace :: "char \<Rightarrow> bool" where
  "isWhiteSpace c = (of_char c \<in> {9, 10, 11, 12, 13, 32 :: nat})"

definition trim :: "string \<Rightarrow> string" where
  "trim s = rev (dropWhile isWhiteSpace (rev (dropWhile isWhiteSpace s)))"

text \<open>\<^verbatim>\<open>s.split('\n')\<close>: never empty, one entry more than there are line feeds.\<close>

fun split_lines :: "string \<Rightarrow> string list" where
  "split_lines [] = [[]]"
| "split_lines (c # cs) =
     (if c = CHR 0x0A then [] # split_lines cs
      else (case split_lines cs of l # ls \<Rightarrow> (c # l) # ls | [] \<Rightarrow> [[c]]))"

text \<open>
  \<^verbatim>\<open>parseInt(s, 16)\<close> after ECMA-262: leading white space is skipped, one sign is
  read, a \<^verbatim>\<open>0x\<close> or \<^verbatim>\<open>0X\<close> prefix is removed, then the longest run of hex digits is
  read; with no digit the result is \<^verbatim>\<open>NaN\<close>. The strings parsed in this program have at
  most eight characters, so the value is exact in a Number.
\<close>

definition hexValue :: "char \<Rightarrow> nat option" where
  "hexValue c =
     (let n = of_char c :: nat in
      if 48 \<le> n \<and> n \<le> 57 then Some (n - 48)
      else if 97 \<le> n \<and> n \<le> 102 then Some (n - 87)
      else if 65 \<le> n \<and> n \<le> 70 then Some (n - 55)
      else None)"

definition isHexDigit :: "char \<Rightarrow> bool" where
  "isHexDigit c = (hexValue c \<noteq> None)"

definition digitsValue :: "string \<Rightarrow> nat" where
  "digitsValue z = foldl (\<lambda>acc c. 16 * acc + the (hexValue c)) 0 z"

definition parseInt16 :: "string \<Rightarrow> int option" where
  "parseInt16 s =
     (let S = dropWhile isWhiteSpace s;
          sign = (if S \<noteq> [] \<and> hd S = CHR ''-'' then - 1 else 1 :: int);
          S1 = (if S \<noteq> [] \<and> (hd S = CHR ''+'' \<or> hd S = CHR ''-'') then tl S else S);
          S2 = (if 2 \<le> length S1 \<and> (take 2 S1 = ''0x'' \<or> take 2 S1 = ''0X'') then drop 2 S1 else S1);
          Z = takeWhile isHexDigit S2
      in if Z = [] then None else Some (sign * int (digitsValue Z)))"

text \<open>
  \<^verbatim>\<open>a % n\<close> for a Number \<open>a\<close> and an array length \<open>n\<close>: \<^verbatim>\<open>NaN\<close> when \<open>a\<close> is
  \<^verbatim>\<open>NaN\<close> or \<open>n\<close> is zero, otherwise the remainder with the sign of the dividend.
\<close>

definition js_rem :: "int option \<Rightarrow> nat \<Rightarrow> int option" where
  "js_rem a n =
     (case a of
        None \<Rightarrow> None
      | Some x \<Rightarrow> if n = 0 then None else Some (sgn x * (\<bar>x\<bar> mod int n)))"

text \<open>
  \<^verbatim>\<open>xs[i]\<close> for a Number \<open>i\<close>: the element when \<open>i\<close> is an integer index inside the
  array, \<^verbatim>\<open>undefined\<close> otherwise (also for \<^verbatim>\<open>NaN\<close>); nothing is raised.
\<close>

definition index_js :: "'a list \<Rightarrow> int option \<Rightarrow> 'a option" where
  "index_js xs i =
     (case i of
        None \<Rightarrow> None
      | Some k \<Rightarrow> if 0 \<le> k \<and> k < int (length xs) then Some (xs ! nat k) else None)"

section \<open>Data model\<close>

text \<open>
  The interfaces of \<^verbatim>\<open>GiveawayForm.tsx\<close> (lines 11-21), of the library (lines 381-391)
  and of \<^verbatim>\<open>App.tsx\<close> (lines 332-338). Field names carry a prefix because two interfaces
  share them. The winner of a result is optional: \<^verbatim>\<open>participants[winnerIndex]\<close> is
  \<^verbatim>\<open>undefined\<close> for an index that is \<^verbatim>\<open>NaN\<close>, and the result object then holds that.
\<close>

record Commitment =
  c_address :: string
  c_commitment :: string
  c_timestamp :: nat

record Reveal =
  r_address :: string
  r_secret :: string
  r_timestamp :: nat

record CommitMessage =
  cm_participantId :: string
  cm_commitment :: string
  cm_timestamp :: nat

record RevealMessage =
  rm_participantId :: string
  rm_secret :: string
  rm_timestamp :: nat

record GiveawayResult =
  winner :: "string option"
  timestamp :: nat
  participants :: "string list"
  randomSeed :: string
  verificationHash :: string

text \<open>
  An inbound transport message, seen from a subscription callback: \<^verbatim>\<open>msg.payload\<close> may
  be missing (\<^term>\<open>None\<close>); otherwise \<^verbatim>\<open>JSON.parse(new TextDecoder().decode(msg.payload))\<close>
  either throws a \<^verbatim>\<open>SyntaxError\<close> or returns a value. The code casts the value to the
  message interface without checking it; the model follows the declared interface, so a
  returned value is a record of that interface.
\<close>

datatype 'a json_parse = Throws | Returns 'a

type_synonym 'a message = "'a json_parse option"

datatype js_exception = SyntaxError

text \<open>
  The library publishes commitments and reveals under one content topic, so each of its
  two listeners sees both kinds of message.
\<close>

datatype wire = CommitData CommitMessage | RevealData RevealMessage

text \<open>
  Messages are handed to a callback one at a time. An exception thrown by the callback
  unwinds into the transport's dispatcher, not into the giveaway run, which only awaits
  its timers: the collected array is as it was and the next message is delivered.
\<close>

fun deliver :: "('s \<Rightarrow> 'm \<Rightarrow> js_exception + 's) \<Rightarrow> 's \<Rightarrow> 'm list \<Rightarrow> 's" where
  "deliver callback s [] = s"
| "deliver callback s (m # ms) =
     (case callback s m of
        Inl _ \<Rightarrow> deliver callback s ms
      | Inr s' \<Rightarrow> deliver callback s' ms)"

section \<open>The form component: \<^verbatim>\<open>runGiveaway\<close>\<close>

text \<open>\<^verbatim>\<open>generateCommitment\<close>, lines 35-41.\<close>

definition generateCommitment :: "string \<Rightarrow> string" where
  "generateCommitment secret = toHex (sha256 (encode secret))"

text \<open>The two early returns of lines 44-57, by the status text they set.\<close>

datatype status = AddParticipantsFirst | NoValidParticipants

text \<open>Lines 49-52: the participant list is the non-empty trimmed lines of the text area.\<close>

definition participantList :: "string \<Rightarrow> string list" where
  "participantList text = filter (\<lambda>p. length p > 0) (map trim (split_lines text))"

text \<open>
  The subscription callbacks of lines 98-105 and 144-151. \<^verbatim>\<open>JSON.parse\<close> is not
  guarded, so its exception leaves the callback; a parsed message is pushed unless it
  carries the organizer's own address.
\<close>

definition commitCallback :: "string \<Rightarrow> Commitment list \<Rightarrow> Commitment message \<Rightarrow>
    js_exception + Commitment list" where
  "commitCallback address commitments msg =
     (case msg of
        None \<Rightarrow> Inr commitments
      | Some Throws \<Rightarrow> Inl SyntaxError
      | Some (Returns data) \<Rightarrow>
          if c_address data \<noteq> address then Inr (commitments @ [data]) else Inr commitments)"

definition revealCallback :: "string \<Rightarrow> Reveal list \<Rightarrow> Reveal message \<Rightarrow>
    js_exception + Reveal list" where
  "revealCallback address reveals msg =
     (case msg of
        None \<Rightarrow> Inr reveals
      | Some Throws \<Rightarrow> Inl SyntaxError
      | Some (Returns data) \<Rightarrow>
          if r_address data \<noteq> address then Inr (reveals @ [data]) else Inr reveals)"

text \<open>
  Lines 169-178: a reveal is kept when \<^verbatim>\<open>commitments.find\<close> returns an entry with the
  reveal's address and the hash of the reveal's secret.
\<close>

definition runGiveaway_validReveals :: "Commitment list \<Rightarrow> Reveal list \<Rightarrow> Reveal list" where
  "runGiveaway_validReveals commitments reveals =
     filter (\<lambda>reveal.
        find (\<lambda>c. c_address c = r_address reveal \<and>
                   c_commitment c = generateCommitment (r_secret reveal)) commitments \<noteq> None)
       reveals"

text \<open>Lines 183-188: the secrets are sorted, joined without a separator, and hashed.\<close>

definition runGiveaway_finalHash :: "Reveal list \<Rightarrow> string" where
  "runGiveaway_finalHash validReveals =
     generateCommitment (join [] (sort (map r_secret validReveals)))"

text \<open>Lines 191-192: the index is read off the final hash itself.\<close>

definition runGiveaway_winnerIndex :: "string \<Rightarrow> string list \<Rightarrow> int option" where
  "runGiveaway_winnerIndex finalHash ps = js_rem (parseInt16 (slice 0 8 finalHash)) (length ps)"

text \<open>
  The run as a function of what it reads from outside: the wallet address, the text
  area, the value of \<^verbatim>\<open>crypto.randomUUID()\<close>, the three readings of \<^verbatim>\<open>Date.now()\<close>,
  and the messages the transport hands to the two callbacks before the reveal window
  closes. The transport calls are taken to succeed (a failure ends the run in the
  \<^verbatim>\<open>catch\<close> block without a result).
\<close>

definition runGiveaway :: "string \<Rightarrow> string \<Rightarrow> string \<Rightarrow> nat \<Rightarrow> nat \<Rightarrow> nat \<Rightarrow>
    Commitment message list \<Rightarrow> Reveal message list \<Rightarrow> status + GiveawayResult" where
  "runGiveaway address text secret now1 now2 now3 commitMsgs revealMsgs =
     (if trim text = [] then Inl AddParticipantsFirst
      else if length (participantList text) = 0 then Inl NoValidParticipants
      else
        let commitment = generateCommitment secret;
            commitMsg = \<lparr>c_address = address, c_commitment = commitment, c_timestamp = now1\<rparr>;
            commitments = deliver (commitCallback address) [commitMsg] commitMsgs;
            revealMsg = \<lparr>r_address = address, r_secret = secret, r_timestamp = now2\<rparr>;
            reveals = deliver (revealCallback address) [revealMsg] revealMsgs;
            validReveals = runGiveaway_validReveals commitments reveals;
            finalHash = runGiveaway_finalHash validReveals;
            winnerIndex = runGiveaway_winnerIndex finalHash (participantList text)
        in Inr \<lparr>winner = index_js (participantList text) winnerIndex,
                timestamp = now3,
                participants = participantList text,
                randomSeed = finalHash,
                verificationHash = finalHash\<rparr>)"

section \<open>The library: \<^verbatim>\<open>selectWinner\<close> and \<^verbatim>\<open>verifyResult\<close>\<close>

text \<open>\<^verbatim>\<open>hashSecret\<close>, lines 531-537.\<close>

definition hashSecret :: "string \<Rightarrow> string" where
  "hashSecret secret = toHex (sha256 (encode secret))"

text \<open>
  The listeners of lines 432-447 and 471-486. \<^verbatim>\<open>JSON.parse\<close> sits in a
  \<^verbatim>\<open>try\<close>/\<^verbatim>\<open>catch\<close> that logs and goes on. A value is pushed as a commitment when
  its \<^verbatim>\<open>commitment\<close> is truthy (a non-empty string) and it has no truthy \<^verbatim>\<open>secret\<close>,
  and as a reveal when its \<^verbatim>\<open>secret\<close> is truthy.
\<close>

definition commitListener :: "CommitMessage list \<Rightarrow> wire message \<Rightarrow>
    js_exception + CommitMessage list" where
  "commitListener commits msg =
     (case msg of
        None \<Rightarrow> Inr commits
      | Some Throws \<Rightarrow> Inr commits
      | Some (Returns (CommitData data)) \<Rightarrow>
          if cm_commitment data \<noteq> [] then Inr (commits @ [data]) else Inr commits
      | Some (Returns (RevealData data)) \<Rightarrow> Inr commits)"

definition revealListener :: "RevealMessage list \<Rightarrow> wire message \<Rightarrow>
    js_exception + RevealMessage list" where
  "revealListener reveals msg =
     (case msg of
        None \<Rightarrow> Inr reveals
      | Some Throws \<Rightarrow> Inr reveals
      | Some (Returns (CommitData data)) \<Rightarrow> Inr reveals
      | Some (Returns (RevealData data)) \<Rightarrow>
          if rm_secret data \<noteq> [] then Inr (reveals @ [data]) else Inr reveals)"

text \<open>
  \<^verbatim>\<open>verifyReveals\<close>, lines 539-556: \<^verbatim>\<open>commits.find\<close> returns the first commitment
  with the reveal's participant id, and only that one is compared.
\<close>

fun verifyReveals :: "CommitMessage list \<Rightarrow> RevealMessage list \<Rightarrow> RevealMessage list" where
  "verifyReveals commits [] = []"
| "verifyReveals commits (reveal # rest) =
     (case find (\<lambda>c. cm_participantId c = rm_participantId reveal) commits of
        None \<Rightarrow> verifyReveals commits rest
      | Some commit \<Rightarrow>
          if hashSecret (rm_secret reveal) = cm_commitment commit
          then reveal # verifyReveals commits rest
          else verifyReveals commits rest)"

text \<open>\<^verbatim>\<open>hashParticipants\<close>, lines 558-565.\<close>

definition hashParticipants :: "string list \<Rightarrow> string \<Rightarrow> string" where
  "hashParticipants ps seed = toHex (sha256 (encode (join ''|'' ps @ ''|'' @ seed)))"

text \<open>
  \<^verbatim>\<open>JSON.stringify\<close> on the arrays of messages, for objects with the fields of the
  interface in its order (an object built by the code itself has exactly these).
\<close>

definition quoteJSONChar :: "char \<Rightarrow> string" where
  "quoteJSONChar c =
     (let n = of_char c :: nat in
      if n = 34 then [CHR 0x5C, CHR 0x22]
      else if n = 92 then [CHR 0x5C, CHR 0x5C]
      else if n = 8 then [CHR 0x5C, CHR ''b'']
      else if n = 9 then [CHR 0x5C, CHR ''t'']
      else if n = 10 then [CHR 0x5C, CHR ''n'']
      else if n = 12 then [CHR 0x5C, CHR ''f'']
      else if n = 13 then [CHR 0x5C, CHR ''r'']
      else if n < 32 then [CHR 0x5C, CHR ''u''] @ padStart 4 (CHR ''0'') (toStringRadix 16 n)
      else [c])"

definition quoteJSON :: "string \<Rightarrow> string" where
  "quoteJSON s = [CHR 0x22] @ concat (map quoteJSONChar s) @ [CHR 0x22]"

definition stringifyCommit :: "CommitMessage \<Rightarrow> string" where
  "stringifyCommit c =
     ''{'' @ quoteJSON ''participantId'' @ '':'' @ quoteJSON (cm_participantId c) @ '','' @
     quoteJSON ''commitment'' @ '':'' @ quoteJSON (cm_commitment c) @ '','' @
     quoteJSON ''timestamp'' @ '':'' @ toStringRadix 10 (cm_timestamp c) @ ''}''"

definition stringifyReveal :: "RevealMessage \<Rightarrow> string" where
  "stringifyReveal r =
     ''{'' @ quoteJSON ''participantId'' @ '':'' @ quoteJSON (rm_participantId r) @ '','' @
     quoteJSON ''secret'' @ '':'' @ quoteJSON (rm_secret r) @ '','' @
     quoteJSON ''timestamp'' @ '':'' @ toStringRadix 10 (rm_timestamp r) @ ''}''"

definition stringifyArray :: "('a \<Rightarrow> string) \<Rightarrow> 'a list \<Rightarrow> string" where
  "stringifyArray f xs = ''['' @ join '','' (map f xs) @ '']''"

text \<open>
  \<^verbatim>\<open>generateVerificationHash\<close>, lines 567-590. An \<^verbatim>\<open>undefined\<close> winner joins as
  the empty string; the last component is the reading of \<^verbatim>\<open>Date.now()\<close>.
\<close>

definition generateVerificationHash :: "string list \<Rightarrow> string option \<Rightarrow> string \<Rightarrow> string \<Rightarrow>
    CommitMessage list \<Rightarrow> RevealMessage list \<Rightarrow> nat \<Rightarrow> string" where
  "generateVerificationHash ps selected seed organizer commits reveals now =
     toHex (sha256 (encode (join ''::''
       [join ''|'' ps,
        (case selected of None \<Rightarrow> [] | Some w \<Rightarrow> w),
        seed,
        organizer,
        stringifyArray stringifyCommit commits,
        stringifyArray stringifyReveal reveals,
        toStringRadix 10 now])))"

text \<open>Lines 497-498: the secrets are joined with a bar in the order of the array.\<close>

definition selectWinner_finalSeed :: "RevealMessage list \<Rightarrow> string" where
  "selectWinner_finalSeed validReveals = hashSecret (join ''|'' (map rm_secret validReveals))"

text \<open>Lines 501-502, and again lines 594-595 of \<^verbatim>\<open>verifyResult\<close>.\<close>

definition selectWinner_winnerIndex :: "string list \<Rightarrow> string \<Rightarrow> int option" where
  "selectWinner_winnerIndex ps seed =
     js_rem (parseInt16 (slice 0 8 (hashParticipants ps seed))) (length ps)"

text \<open>
  \<^verbatim>\<open>selectWinner\<close>, lines 396-523, as a function of its two arguments, the value of
  \<^verbatim>\<open>generateSecret()\<close>, the four readings of \<^verbatim>\<open>Date.now()\<close> that enter the result,
  and the messages handed to the two listeners. The transport calls are taken to succeed.
\<close>

definition selectWinner :: "string list \<Rightarrow> string \<Rightarrow> string \<Rightarrow> nat \<Rightarrow> nat \<Rightarrow> nat \<Rightarrow> nat \<Rightarrow>
    wire message list \<Rightarrow> wire message list \<Rightarrow> GiveawayResult" where
  "selectWinner ps organizerAddress ourSecret now1 now2 now3 now4 commitMsgs revealMsgs =
     (let ourCommitment = hashSecret ourSecret;
          commitMessage = \<lparr>cm_participantId = organizerAddress, cm_commitment = ourCommitment,
                           cm_timestamp = now1\<rparr>;
          commits = deliver commitListener [commitMessage] commitMsgs;
          revealMessage = \<lparr>rm_participantId = organizerAddress, rm_secret = ourSecret,
                           rm_timestamp = now2\<rparr>;
          reveals = deliver revealListener [revealMessage] revealMsgs;
          validReveals = verifyReveals commits reveals;
          finalSeed = selectWinner_finalSeed validReveals;
          winnerIndex = selectWinner_winnerIndex ps finalSeed;
          selected = index_js ps winnerIndex;
          vHash = generateVerificationHash ps selected finalSeed organizerAddress
                    commits validReveals now3
      in \<lparr>winner = selected, timestamp = now4, participants = ps, randomSeed = finalSeed,
          verificationHash = vHash\<rparr>)"

text \<open>
  \<^verbatim>\<open>verifyResult\<close>, lines 592-603. On a result of the declared type nothing in the
  \<^verbatim>\<open>try\<close> block throws, so the \<^verbatim>\<open>catch\<close> branch is not reached. The second
  argument is not read.
\<close>

definition verifyResult :: "GiveawayResult \<Rightarrow> string \<Rightarrow> bool" where
  "verifyResult result organizerAddress =
     (let expectedIndex = selectWinner_winnerIndex (participants result) (randomSeed result);
          expectedWinner = index_js (participants result) expectedIndex
      in expectedWinner = winner result)"

section \<open>Properties of the primitives\<close>

text \<open>
  The first eight characters of a hex digest are the digits of its first four bytes, and
  \<^term>\<open>parseInt16\<close> reads them as one non-negative number, most significant byte first.
\<close>

lemma join_empty_sep: "join [] xs = concat xs"
  by (induction "[] :: string" xs rule: join.induct) simp_all

lemma below_16_cases:
  assumes "d < (16::nat)"
  shows "d \<in> {0, 1, 2, 3, 4, 5, 6, 7, 8, 9, 10, 11, 12, 13, 14, 15}"
  using assms by simp arith

lemma digitChar_facts:
  assumes "d < 16"
  shows "hexValue (digitChar d) = Some d"
    and "\<not> isWhiteSpace (digitChar d)"
    and "digitChar d \<noteq> CHR ''-''"
    and "digitChar d \<noteq> CHR ''+''"
    and "digitChar d \<noteq> CHR ''x''"
    and "digitChar d \<noteq> CHR ''X''"
  using below_16_cases [OF assms]
  by (auto simp: digitChar_def hexValue_def isWhiteSpace_def)

lemma byte_hex:
  assumes "b < 256"
  shows "padStart 2 (CHR ''0'') (toStringRadix 16 b) = [digitChar (b div 16), digitChar (b mod 16)]"
proof (cases "b < 16")
  case True
  then show ?thesis
    by (simp add: toStringRadix.simps [of 16 b] padStart_def digitChar_def)
next
  case False
  with assms have "b div 16 < 16" by simp
  with False show ?thesis
    by (simp add: toStringRadix.simps [of 16 b] toStringRadix.simps [of 16 "b div 16"] padStart_def)
qed

lemma toHex_Cons:
  "toHex (b # bs) = padStart 2 (CHR ''0'') (toStringRadix 16 b) @ toHex bs"
  by (simp add: toHex_def join_empty_sep)

lemma parseInt16_hex8:
  assumes "d0 < 16" "d1 < 16" "d2 < 16" "d3 < 16" "d4 < 16" "d5 < 16" "d6 < 16" "d7 < 16"
  shows "parseInt16 [digitChar d0, digitChar d1, digitChar d2, digitChar d3,
                     digitChar d4, digitChar d5, digitChar d6, digitChar d7] =
         Some (int (((((((d0 * 16 + d1) * 16 + d2) * 16 + d3) * 16 + d4) * 16 + d5) * 16 + d6) * 16 + d7))"
  using assms
  by (simp add: parseInt16_def Let_def digitChar_facts isHexDigit_def digitsValue_def mult.commute)

lemma slice_8_toHex:
  assumes "b0 < 256" "b1 < 256" "b2 < 256" "b3 < 256"
  shows "slice 0 8 (toHex (b0 # b1 # b2 # b3 # bs)) =
     [digitChar (b0 div 16), digitChar (b0 mod 16), digitChar (b1 div 16), digitChar (b1 mod 16),
      digitChar (b2 div 16), digitChar (b2 mod 16), digitChar (b3 div 16), digitChar (b3 mod 16)]"
  using assms by (simp add: toHex_Cons byte_hex slice_def)

lemma parseInt16_toHex:
  assumes "b0 < 256" "b1 < 256" "b2 < 256" "b3 < 256"
  shows "parseInt16 (slice 0 8 (toHex (b0 # b1 # b2 # b3 # bs))) =
         Some (int (b0 * 16777216 + b1 * 65536 + b2 * 256 + b3))"
proof -
  have d: "b0 div 16 < 16" "b1 div 16 < 16" "b2 div 16 < 16" "b3 div 16 < 16"
    using assms by simp_all
  have m: "b0 mod 16 < 16" "b1 mod 16 < 16" "b2 mod 16 < 16" "b3 mod 16 < 16"
    by simp_all
  have "parseInt16 (slice 0 8 (toHex (b0 # b1 # b2 # b3 # bs))) =
        Some (int (((((((b0 div 16 * 16 + b0 mod 16) * 16 + b1 div 16) * 16 + b1 mod 16) * 16
                 + b2 div 16) * 16 + b2 mod 16) * 16 + b3 div 16) * 16 + b3 mod 16))"
    unfolding slice_8_toHex [OF assms]
    by (rule parseInt16_hex8) (use d m in simp_all)
  also have "\<dots> = Some (int (b0 * 16777216 + b1 * 65536 + b2 * 256 + b3))"
    by (simp add: algebra_simps) 
  finally show ?thesis .
qed


lemma be_bytes_numeral:
  "be_bytes (numeral k) v = be_bytes (pred_numeral k) (v div 256) @ [v mod 256]"
  unfolding numeral_eq_Suc [of k] by (rule be_bytes.simps(2))

lemma sha256_prefix:
  "\<exists>b0 b1 b2 b3 bs. sha256 m = b0 # b1 # b2 # b3 # bs \<and> b0 < 256 \<and> b1 < 256 \<and> b2 < 256 \<and> b3 < 256"
proof -
  obtain a b c d e f g h where st: "hash_blocks initial_hash (pad_message m) = (a, b, c, d, e, f, g, h)"
    by (metis surj_pair)
  show ?thesis
    by (simp add: sha256_def st be_bytes_numeral)
qed

lemma parseInt16_digest:
  "\<exists>v. parseInt16 (slice 0 8 (toHex (sha256 m))) = Some (int v)"
proof -
  obtain b0 b1 b2 b3 bs where
    "sha256 m = b0 # b1 # b2 # b3 # bs" "b0 < 256" "b1 < 256" "b2 < 256" "b3 < 256"
    using sha256_prefix by blast
  then have "parseInt16 (slice 0 8 (toHex (sha256 m))) =
      Some (int (b0 * 16777216 + b1 * 65536 + b2 * 256 + b3))"
    by (simp only: parseInt16_toHex)
  then show ?thesis ..
qed

lemma js_rem_nat:
  assumes "0 < n"
  shows "js_rem (Some (int v)) n = Some (int (v mod n))"
  using assms by (cases "v = 0") (simp_all add: js_rem_def zmod_int)

lemma index_js_nat:
  assumes "k < length xs"
  shows "index_js xs (Some (int k)) = Some (xs ! k)"
  using assms by (simp add: index_js_def)

lemma digest_index_in_range:
  assumes "ps \<noteq> []"
  shows "\<exists>k. js_rem (parseInt16 (slice 0 8 (toHex (sha256 m)))) (length ps) = Some (int k)
             \<and> k < length ps"
proof -
  obtain v where v: "parseInt16 (slice 0 8 (toHex (sha256 m))) = Some (int v)"
    using parseInt16_digest by blast
  from assms have n: "0 < length ps" by simp
  have "js_rem (Some (int v)) (length ps) = Some (int (v mod length ps))"
    using n by (rule js_rem_nat)
  moreover have "v mod length ps < length ps"
    using n by simp
  ultimately show ?thesis
    using v by auto
qed

section \<open>Evaluating digests\<close>

text \<open>
  Concrete digests are computed by rewriting with the defining equations. The first
  lemma is the one-block test vector of FIPS 180-4; the others are the digests that the
  example runs below need.
\<close>

lemma replicate_numeral: "replicate (numeral k) x = x # replicate (pred_numeral k) x"
  by (simp add: numeral_eq_Suc)

lemmas digest_eval = 
  add32_def rotr32_def shr32_def choose32_def majority32_def big_sigma0_def
  big_sigma1_def small_sigma0_def small_sigma1_def schedule_next_def compress_def round_constants_def
  initial_hash_def pad_message_def sha256_def encode_def hash_blocks.simps
  replicate_numeral be_bytes_numeral toHex_def padStart_def toStringRadix.simps digitChar_def

lemma sha256_abc:
  "toHex (sha256 (encode ''abc'')) =
     ''ba7816bf8f01cfea414140de5dae2223b00361a396177a9cb410ff61f20015ad''"
  by (simp add: digest_eval)

lemma hashSecret_x:
  "hashSecret ''x'' = ''2d711642b726b04401627ca9fbac32f5c8530fb1903cc4db02258717921a4881''"
  by (simp add: hashSecret_def digest_eval)

lemma hashSecret_y:
  "hashSecret ''y'' = ''a1fce4363854ff888cff4b8e7875d600c2682390412a8cf79b37d0b11148b0fa''"
  by (simp add: hashSecret_def digest_eval)

lemma hashSecret_organizer:
  "hashSecret ''00112233445566778899aabbccddeeff00112233445566778899aabbccddeeff'' =
     ''2a8abfa8cb9906290437854193ca6bca41d4d4e26d1d454bd66a35158095e737''"
  by (simp add: hashSecret_def digest_eval)

lemma hashSecret_entropy_xy:
  "hashSecret ''00112233445566778899aabbccddeeff00112233445566778899aabbccddeeff|x|y'' =
     ''6b6afbbce9cae5f0e361f6d7ffbed9b7abb063dd624719cdd0067b98484cebcc''"
  by (simp add: hashSecret_def digest_eval)

lemma hashSecret_entropy_yx:
  "hashSecret ''00112233445566778899aabbccddeeff00112233445566778899aabbccddeeff|y|x'' =
     ''59ce1c696ecd17d2d3b8d24f502327a8a2b321a206cc0fcc4c0cd59f6cf02ad9''"
  by (simp add: hashSecret_def digest_eval)

lemma generateCommitment_uuid:
  "generateCommitment ''0b0e7a3c-5d51-4c1e-9a57-2f6d8c3b9e10'' =
     ''64dee9a68cca923e3948c71b896a4dbb5ff24220f7c39977bbd914418284b5c2''"
  by (simp add: generateCommitment_def digest_eval)

lemma hashParticipants_example:
  "hashParticipants [''inj1alice'', ''inj1bob'', ''inj1carol'']
     ''64dee9a68cca923e3948c71b896a4dbb5ff24220f7c39977bbd914418284b5c2'' =
     ''93ae4293ffce2e5e04352f796d0e6ecd57422ebd8ec2769ced683baa4012ad3d''"
  by (simp add: hashParticipants_def digest_eval)

lemma generateCommitment_hashSecret: "generateCommitment s = hashSecret s"
  by (simp add: generateCommitment_def hashSecret_def)

lemma generateCommitment_uuid_y:
  "generateCommitment ''0b0e7a3c-5d51-4c1e-9a57-2f6d8c3b9e10y'' =
     ''9edf3f2a2628fd814503bd41e4dfba5d1d750e10ba5894fe916a86b8c0032de1''"
  by (simp add: generateCommitment_def digest_eval)

lemmas text_eval = trim_def isWhiteSpace_def participantList_def

lemmas parse_eval = parseInt16_def slice_def isWhiteSpace_def isHexDigit_def hexValue_def
  digitsValue_def Let_def js_rem_def index_js_def

section \<open>Facts about the two implementations\<close>

lemma participants_selectWinner [simp]:
  "participants (selectWinner ps org s n1 n2 n3 n4 cm rm) = ps"
  by (simp add: selectWinner_def Let_def)

lemma randomSeed_selectWinner:
  "randomSeed (selectWinner ps org s n1 n2 n3 n4 cm rm) =
     selectWinner_finalSeed
       (verifyReveals
          (deliver commitListener
             [\<lparr>cm_participantId = org, cm_commitment = hashSecret s, cm_timestamp = n1\<rparr>] cm)
          (deliver revealListener
             [\<lparr>rm_participantId = org, rm_secret = s, rm_timestamp = n2\<rparr>] rm))"
  by (simp add: selectWinner_def Let_def)

lemma winner_selectWinner:
  "winner (selectWinner ps org s n1 n2 n3 n4 cm rm) =
     index_js ps (selectWinner_winnerIndex ps (randomSeed (selectWinner ps org s n1 n2 n3 n4 cm rm)))"
  by (simp add: selectWinner_def Let_def)

lemma verificationHash_selectWinner:
  "verificationHash (selectWinner ps org s n1 n2 n3 n4 cm rm) =
     generateVerificationHash ps
       (winner (selectWinner ps org s n1 n2 n3 n4 cm rm))
       (randomSeed (selectWinner ps org s n1 n2 n3 n4 cm rm))
       org
       (deliver commitListener
          [\<lparr>cm_participantId = org, cm_commitment = hashSecret s, cm_timestamp = n1\<rparr>] cm)
       (verifyReveals
          (deliver commitListener
             [\<lparr>cm_participantId = org, cm_commitment = hashSecret s, cm_timestamp = n1\<rparr>] cm)
          (deliver revealListener
             [\<lparr>rm_participantId = org, rm_secret = s, rm_timestamp = n2\<rparr>] rm))
       n3"
  by (simp add: selectWinner_def Let_def)

lemma winner_selectWinner_member:
  assumes "ps \<noteq> []"
  shows "\<exists>w. winner (selectWinner ps org s n1 n2 n3 n4 cm rm) = Some w \<and> w \<in> set ps"
proof -
  obtain k where
    "selectWinner_winnerIndex ps (randomSeed (selectWinner ps org s n1 n2 n3 n4 cm rm)) = Some (int k)"
    and k: "k < length ps"
    unfolding selectWinner_winnerIndex_def hashParticipants_def
    using digest_index_in_range [OF assms] by blast
  then have "winner (selectWinner ps org s n1 n2 n3 n4 cm rm) = Some (ps ! k)"
    by (simp add: winner_selectWinner index_js_nat)
  with k show ?thesis by simp
qed

lemma verifyReveals_filter:
  "verifyReveals commits reveals =
     filter (\<lambda>r. case find (\<lambda>c. cm_participantId c = rm_participantId r) commits of
                   None \<Rightarrow> False
                 | Some c \<Rightarrow> hashSecret (rm_secret r) = cm_commitment c) reveals"
  by (induction reveals) (simp_all split: option.split)

lemma verifyReveals_member:
  "r \<in> set (verifyReveals commits reveals) \<longleftrightarrow>
     r \<in> set reveals \<and>
     (\<exists>c. find (\<lambda>c. cm_participantId c = rm_participantId r) commits = Some c \<and>
          cm_commitment c = hashSecret (rm_secret r))"
  by (auto simp add: verifyReveals_filter split: option.splits)

lemma runGiveaway_validReveals_member:
  "r \<in> set (runGiveaway_validReveals commitments reveals) \<longleftrightarrow>
     r \<in> set reveals \<and>
     (\<exists>c \<in> set commitments. c_address c = r_address r \<and>
                             c_commitment c = generateCommitment (r_secret r))"
  by (auto simp add: runGiveaway_validReveals_def find_None_iff)

lemma find_first_of_distinct:
  assumes "distinct (map cm_participantId commits)"
    and "c \<in> set commits"
  shows "find (\<lambda>c'. cm_participantId c' = cm_participantId c) commits = Some c"
  using assms
proof (induction commits)
  case Nil
  then show ?case by simp
next
  case (Cons a commits)
  then show ?case by (auto simp add: image_iff)
qed

lemma find_Some_member:
  assumes "find P xs = Some x"
  shows "x \<in> set xs \<and> P x"
  using assms by (induction xs) (auto split: if_splits)

lemma deliver_append:
  "deliver cb s (ms @ [m]) =
     (case cb (deliver cb s ms) m of Inl _ \<Rightarrow> deliver cb s ms | Inr s' \<Rightarrow> s')"
  by (induction ms arbitrary: s) (simp_all split: sum.split)

lemma find_append_first:
  assumes "\<exists>x \<in> set xs. P x"
  shows "find P (xs @ ys) = find P xs"
  using assms by (induction xs) auto

lemma verifyReveals_later_commit:
  assumes "cm_participantId dup \<in> cm_participantId ` set commits"
  shows "verifyReveals (commits @ [dup]) reveals = verifyReveals commits reveals"
proof -
  have "find (\<lambda>c. cm_participantId c = p) (commits @ [dup]) =
        find (\<lambda>c. cm_participantId c = p) commits" for p
  proof (cases "\<exists>x \<in> set commits. cm_participantId x = p")
    case True
    then show ?thesis by (rule find_append_first)
  next
    case False
    with assms have "cm_participantId dup \<noteq> p" by auto
    with False have "find (\<lambda>c. cm_participantId c = p) (commits @ [dup]) = None"
      and "find (\<lambda>c. cm_participantId c = p) commits = None"
      by (auto simp add: find_None_iff)
    then show ?thesis by simp
  qed
  then show ?thesis
    by (simp add: verifyReveals_filter)
qed

lemma runGiveaway_finalHash_order:
  assumes "mset validReveals = mset validReveals'"
  shows "runGiveaway_finalHash validReveals = runGiveaway_finalHash validReveals'"
proof -
  from assms have "mset (map r_secret validReveals) = mset (map r_secret validReveals')"
    by (metis mset_map)
  then have "sort (map r_secret validReveals) = sort (map r_secret validReveals')"
    by (metis properties_for_sort sorted_sort mset_sort)
  then show ?thesis
    by (simp add: runGiveaway_finalHash_def)
qed

lemma runGiveaway_blank_text:
  assumes "trim text = []"
  shows "runGiveaway address text secret now1 now2 now3 commitMsgs revealMsgs =
           Inl AddParticipantsFirst"
  using assms by (simp add: runGiveaway_def)

lemma runGiveaway_result:
  assumes "runGiveaway address text secret now1 now2 now3 commitMsgs revealMsgs = Inr r"
  shows "verificationHash r = randomSeed r" and "participants r \<noteq> []"
  using assms by (auto simp add: runGiveaway_def Let_def split: if_splits)

lemma listeners_drop_bad_json:
  "commitListener commits (Some Throws) = Inr commits"
  "revealListener reveals (Some Throws) = Inr reveals"
  by (simp_all add: commitListener_def revealListener_def)

lemma callbacks_keep_state_on_bad_json:
  "deliver (commitCallback address) commitments [Some Throws] = commitments"
  "deliver (revealCallback address) reveals [Some Throws] = reveals"
  by (simp_all add: commitCallback_def revealCallback_def)

lemma commits_after_later_commit:
  "deliver commitListener s (cm @ [Some (Returns (CommitData dup))]) =
     (if cm_commitment dup \<noteq> [] then deliver commitListener s cm @ [dup]
      else deliver commitListener s cm)"
  by (simp add: deliver_append commitListener_def)

lemma winnerIndex_in_range_nonempty:
  assumes "ps \<noteq> []"
  shows "(\<exists>i. selectWinner_winnerIndex ps seed = Some i \<and> 0 \<le> i \<and> i < int (length ps)) \<and>
         (\<exists>i. runGiveaway_winnerIndex (runGiveaway_finalHash validReveals) ps = Some i
               \<and> 0 \<le> i \<and> i < int (length ps))"
proof
  obtain k where "selectWinner_winnerIndex ps seed = Some (int k)" "k < length ps"
    unfolding selectWinner_winnerIndex_def hashParticipants_def
    using digest_index_in_range [OF assms] by blast
  then show "\<exists>i. selectWinner_winnerIndex ps seed = Some i \<and> 0 \<le> i \<and> i < int (length ps)"
    by simp
next
  obtain k where "runGiveaway_winnerIndex (runGiveaway_finalHash validReveals) ps = Some (int k)"
    "k < length ps"
    unfolding runGiveaway_winnerIndex_def runGiveaway_finalHash_def generateCommitment_def
    using digest_index_in_range [OF assms] by blast
  then show "\<exists>i. runGiveaway_winnerIndex (runGiveaway_finalHash validReveals) ps = Some i
      \<and> 0 \<le> i \<and> i < int (length ps)"
    by simp
qed

section \<open>The claims\<close>

text \<open>
  C1. The claim: for every non-empty participant list and every random seed, the winner
  index is derived in two steps, from the digest of the participants joined with the
  seed. \<^verbatim>\<open>selectWinner\<close> and \<^verbatim>\<open>verifyResult\<close> do that
  (\<^term>\<open>selectWinner_winnerIndex\<close>); \<^verbatim>\<open>runGiveaway\<close> reads the index off the seed
  itself (\<^term>\<open>runGiveaway_winnerIndex\<close>). In the run below, with three participants,
  the organizer's secret \<^verbatim>\<open>0b0e7a3c-5d51-4c1e-9a57-2f6d8c3b9e10\<close> and no other sender,
  \<^verbatim>\<open>runGiveaway\<close> selects \<^verbatim>\<open>inj1bob\<close> (index 1), where the two-step derivation
  from the same participants and seed gives \<^verbatim>\<open>inj1alice\<close> (index 0); the result of
  the run therefore does not pass \<^verbatim>\<open>verifyResult\<close>.
\<close>

theorem runGiveaway_index_from_seed:
  "runGiveaway ''inj1org'' (''inj1alice'' @ [CHR 0x0A] @ ''inj1bob'' @ [CHR 0x0A] @ ''inj1carol'')
       ''0b0e7a3c-5d51-4c1e-9a57-2f6d8c3b9e10'' 1700000000000 1700000030000 1700000060000 [] [] =
     Inr \<lparr>winner = Some ''inj1bob'',
          timestamp = 1700000060000,
          participants = [''inj1alice'', ''inj1bob'', ''inj1carol''],
          randomSeed = ''64dee9a68cca923e3948c71b896a4dbb5ff24220f7c39977bbd914418284b5c2'',
          verificationHash = ''64dee9a68cca923e3948c71b896a4dbb5ff24220f7c39977bbd914418284b5c2''\<rparr> \<and>
   index_js [''inj1alice'', ''inj1bob'', ''inj1carol'']
     (selectWinner_winnerIndex [''inj1alice'', ''inj1bob'', ''inj1carol'']
        ''64dee9a68cca923e3948c71b896a4dbb5ff24220f7c39977bbd914418284b5c2'') = Some ''inj1alice'' \<and>
   \<not> verifyResult
     \<lparr>winner = Some ''inj1bob'',
      timestamp = 1700000060000,
      participants = [''inj1alice'', ''inj1bob'', ''inj1carol''],
      randomSeed = ''64dee9a68cca923e3948c71b896a4dbb5ff24220f7c39977bbd914418284b5c2'',
      verificationHash = ''64dee9a68cca923e3948c71b896a4dbb5ff24220f7c39977bbd914418284b5c2''\<rparr>
     ''inj1org''"
  by (simp add: runGiveaway_def text_eval commitCallback_def revealCallback_def
      runGiveaway_validReveals_def runGiveaway_finalHash_def Let_def generateCommitment_uuid)
    (simp add: runGiveaway_winnerIndex_def selectWinner_winnerIndex_def verifyResult_def
      hashParticipants_example parse_eval)

text \<open>
  C2. A result of \<^verbatim>\<open>selectWinner\<close> on a non-empty participant list passes
  \<^verbatim>\<open>verifyResult\<close>, and it fails as soon as its winner is replaced by any other value.
\<close>

theorem verifyResult_selectWinner:
  assumes "ps \<noteq> []"
  shows "verifyResult (selectWinner ps org s n1 n2 n3 n4 cm rm) org \<and>
         (\<forall>w. w \<noteq> winner (selectWinner ps org s n1 n2 n3 n4 cm rm) \<longrightarrow>
              \<not> verifyResult ((selectWinner ps org s n1 n2 n3 n4 cm rm)\<lparr>winner := w\<rparr>) org)"
  by (auto simp add: verifyResult_def Let_def winner_selectWinner)

text \<open>The theorem at a run with three participants and no other sender.\<close>

theorem verifyResult_selectWinner_witness:
  "[''inj1alice'', ''inj1bob'', ''inj1carol''] \<noteq> [] \<and>
   verifyResult (selectWinner [''inj1alice'', ''inj1bob'', ''inj1carol''] ''inj1org''
      ''00112233445566778899aabbccddeeff00112233445566778899aabbccddeeff''
      1700000000000 1700000030000 1700000060000 1700000060001 [] []) ''inj1org'' \<and>
   \<not> verifyResult ((selectWinner [''inj1alice'', ''inj1bob'', ''inj1carol''] ''inj1org''
      ''00112233445566778899aabbccddeeff00112233445566778899aabbccddeeff''
      1700000000000 1700000030000 1700000060000 1700000060001 [] [])
        \<lparr>winner := Some ''inj1mallory''\<rparr>) ''inj1org''"
proof -
  let ?ps = "[''inj1alice'', ''inj1bob'', ''inj1carol'']"
  let ?r = "selectWinner ?ps ''inj1org''
      ''00112233445566778899aabbccddeeff00112233445566778899aabbccddeeff''
      1700000000000 1700000030000 1700000060000 1700000060001 [] []"
  have ne: "?ps \<noteq> []" by simp
  obtain w where w: "winner ?r = Some w" "w \<in> set ?ps"
    using winner_selectWinner_member [OF ne] by blast
  then have "Some ''inj1mallory'' \<noteq> winner ?r" by auto
  with verifyResult_selectWinner [OF ne, of "''inj1org''"
      "''00112233445566778899aabbccddeeff00112233445566778899aabbccddeeff''"
      1700000000000 1700000030000 1700000060000 1700000060001 "[]" "[]"] ne
  show ?thesis by blast
qed

text \<open>
  C3. The claim: permuting the order in which the valid reveals are listed does not
  change the random seed. \<^verbatim>\<open>runGiveaway\<close> sorts the secrets before joining them
  (lemma \<open>runGiveaway_finalHash_order\<close>); \<^verbatim>\<open>selectWinner\<close> joins them in the order
  of arrival. In the two runs below the same two reveals, each matching its sender's
  commitment, arrive in the two possible orders, and the seeds differ.
\<close>

theorem selectWinner_seed_depends_on_arrival_order:
  "randomSeed (selectWinner [''inj1alice'', ''inj1bob'', ''inj1carol''] ''inj1org''
      ''00112233445566778899aabbccddeeff00112233445566778899aabbccddeeff''
      1700000000000 1700000030000 1700000060000 1700000060001
      [Some (Returns (CommitData \<lparr>cm_participantId = ''inj1bob'',
          cm_commitment = ''2d711642b726b04401627ca9fbac32f5c8530fb1903cc4db02258717921a4881'',
          cm_timestamp = 1700000001000\<rparr>)),
       Some (Returns (CommitData \<lparr>cm_participantId = ''inj1carol'',
          cm_commitment = ''a1fce4363854ff888cff4b8e7875d600c2682390412a8cf79b37d0b11148b0fa'',
          cm_timestamp = 1700000002000\<rparr>))]
      [Some (Returns (RevealData \<lparr>rm_participantId = ''inj1bob'', rm_secret = ''x'',
          rm_timestamp = 1700000031000\<rparr>)),
       Some (Returns (RevealData \<lparr>rm_participantId = ''inj1carol'', rm_secret = ''y'',
          rm_timestamp = 1700000032000\<rparr>))]) =
     ''6b6afbbce9cae5f0e361f6d7ffbed9b7abb063dd624719cdd0067b98484cebcc'' \<and>
   randomSeed (selectWinner [''inj1alice'', ''inj1bob'', ''inj1carol''] ''inj1org''
      ''00112233445566778899aabbccddeeff00112233445566778899aabbccddeeff''
      1700000000000 1700000030000 1700000060000 1700000060001
      [Some (Returns (CommitData \<lparr>cm_participantId = ''inj1bob'',
          cm_commitment = ''2d711642b726b04401627ca9fbac32f5c8530fb1903cc4db02258717921a4881'',
          cm_timestamp = 1700000001000\<rparr>)),
       Some (Returns (CommitData \<lparr>cm_participantId = ''inj1carol'',
          cm_commitment = ''a1fce4363854ff888cff4b8e7875d600c2682390412a8cf79b37d0b11148b0fa'',
          cm_timestamp = 1700000002000\<rparr>))]
      [Some (Returns (RevealData \<lparr>rm_participantId = ''inj1carol'', rm_secret = ''y'',
          rm_timestamp = 1700000032000\<rparr>)),
       Some (Returns (RevealData \<lparr>rm_participantId = ''inj1bob'', rm_secret = ''x'',
          rm_timestamp = 1700000031000\<rparr>))]) =
     ''59ce1c696ecd17d2d3b8d24f502327a8a2b321a206cc0fcc4c0cd59f6cf02ad9''"
  by (simp add: randomSeed_selectWinner commitListener_def revealListener_def
      selectWinner_finalSeed_def hashSecret_x hashSecret_y hashSecret_organizer
      hashSecret_entropy_xy hashSecret_entropy_yx)

text \<open>
  C4, as amended. \<^verbatim>\<open>verifyReveals\<close> keeps a reveal exactly when the first recorded
  commitment of its sender carries the hash of its secret; when no sender has two
  recorded commitments, that is exactly when some recorded commitment of its sender
  carries that hash. The check inside \<^verbatim>\<open>runGiveaway\<close> keeps a reveal exactly when
  some recorded commitment of its sender carries the hash of its secret.
\<close>

theorem valid_reveals_characterised:
  "(r \<in> set (verifyReveals commits reveals) \<longleftrightarrow>
      r \<in> set reveals \<and>
      (\<exists>c. find (\<lambda>c. cm_participantId c = rm_participantId r) commits = Some c \<and>
           cm_commitment c = hashSecret (rm_secret r))) \<and>
   (distinct (map cm_participantId commits) \<longrightarrow>
      (r \<in> set (verifyReveals commits reveals) \<longleftrightarrow>
         r \<in> set reveals \<and>
         (\<exists>c \<in> set commits. cm_participantId c = rm_participantId r \<and>
                             cm_commitment c = hashSecret (rm_secret r)))) \<and>
   (r' \<in> set (runGiveaway_validReveals commitments reveals') \<longleftrightarrow>
      r' \<in> set reveals' \<and>
      (\<exists>c \<in> set commitments. c_address c = r_address r' \<and>
                              c_commitment c = generateCommitment (r_secret r')))"
proof (intro conjI impI)
  show "r \<in> set (verifyReveals commits reveals) \<longleftrightarrow>
      r \<in> set reveals \<and>
      (\<exists>c. find (\<lambda>c. cm_participantId c = rm_participantId r) commits = Some c \<and>
           cm_commitment c = hashSecret (rm_secret r))"
    by (rule verifyReveals_member)
next
  assume d: "distinct (map cm_participantId commits)"
  have "(\<exists>c. find (\<lambda>c. cm_participantId c = rm_participantId r) commits = Some c \<and>
           cm_commitment c = hashSecret (rm_secret r)) \<longleftrightarrow>
        (\<exists>c \<in> set commits. cm_participantId c = rm_participantId r \<and>
                            cm_commitment c = hashSecret (rm_secret r))"
  proof
    assume "\<exists>c. find (\<lambda>c. cm_participantId c = rm_participantId r) commits = Some c \<and>
           cm_commitment c = hashSecret (rm_secret r)"
    then show "\<exists>c \<in> set commits. cm_participantId c = rm_participantId r \<and>
                            cm_commitment c = hashSecret (rm_secret r)"
      using find_Some_member by fastforce
  next
    assume "\<exists>c \<in> set commits. cm_participantId c = rm_participantId r \<and>
                            cm_commitment c = hashSecret (rm_secret r)"
    then obtain c where c: "c \<in> set commits" "cm_participantId c = rm_participantId r"
      "cm_commitment c = hashSecret (rm_secret r)" by blast
    from find_first_of_distinct [OF d c(1)] c(2,3)
    show "\<exists>c. find (\<lambda>c. cm_participantId c = rm_participantId r) commits = Some c \<and>
           cm_commitment c = hashSecret (rm_secret r)"
      by auto
  qed
  then show "r \<in> set (verifyReveals commits reveals) \<longleftrightarrow>
         r \<in> set reveals \<and>
         (\<exists>c \<in> set commits. cm_participantId c = rm_participantId r \<and>
                             cm_commitment c = hashSecret (rm_secret r))"
    by (simp add: verifyReveals_member)
next
  show "r' \<in> set (runGiveaway_validReveals commitments reveals') \<longleftrightarrow>
      r' \<in> set reveals' \<and>
      (\<exists>c \<in> set commitments. c_address c = r_address r' \<and>
                              c_commitment c = generateCommitment (r_secret r'))"
    by (rule runGiveaway_validReveals_member)
qed

text \<open>
  The claim as stated fails on \<^verbatim>\<open>verifyReveals\<close>: with two recorded commitments of
  one sender, a reveal that matches the second one is discarded, although a recorded
  commitment of its sender carries the hash of its secret.
\<close>

theorem verifyReveals_first_commitment_only:
  "verifyReveals
     [\<lparr>cm_participantId = ''inj1bob'',
       cm_commitment = ''2d711642b726b04401627ca9fbac32f5c8530fb1903cc4db02258717921a4881'',
       cm_timestamp = 1700000001000\<rparr>,
      \<lparr>cm_participantId = ''inj1bob'',
       cm_commitment = ''a1fce4363854ff888cff4b8e7875d600c2682390412a8cf79b37d0b11148b0fa'',
       cm_timestamp = 1700000002000\<rparr>]
     [\<lparr>rm_participantId = ''inj1bob'', rm_secret = ''y'', rm_timestamp = 1700000031000\<rparr>] = [] \<and>
   cm_participantId \<lparr>cm_participantId = ''inj1bob'',
       cm_commitment = ''a1fce4363854ff888cff4b8e7875d600c2682390412a8cf79b37d0b11148b0fa'',
       cm_timestamp = 1700000002000\<rparr> =
     rm_participantId \<lparr>rm_participantId = ''inj1bob'', rm_secret = ''y'',
       rm_timestamp = 1700000031000\<rparr> \<and>
   cm_commitment \<lparr>cm_participantId = ''inj1bob'',
       cm_commitment = ''a1fce4363854ff888cff4b8e7875d600c2682390412a8cf79b37d0b11148b0fa'',
       cm_timestamp = 1700000002000\<rparr> =
     hashSecret (rm_secret \<lparr>rm_participantId = ''inj1bob'', rm_secret = ''y'',
       rm_timestamp = 1700000031000\<rparr>)"
  by (simp add: hashSecret_y)

text \<open>
  The amended statement at a run where every sender has one commitment: the reveal of
  \<^verbatim>\<open>inj1bob\<close> is kept, the reveal of \<^verbatim>\<open>inj1carol\<close>, who never committed, is not.
\<close>

theorem valid_reveals_characterised_witness:
  "distinct (map cm_participantId
     [\<lparr>cm_participantId = ''inj1org'',
       cm_commitment = ''2a8abfa8cb9906290437854193ca6bca41d4d4e26d1d454bd66a35158095e737'',
       cm_timestamp = 1700000000000\<rparr>,
      \<lparr>cm_participantId = ''inj1bob'',
       cm_commitment = ''2d711642b726b04401627ca9fbac32f5c8530fb1903cc4db02258717921a4881'',
       cm_timestamp = 1700000001000\<rparr>]) \<and>
   \<lparr>rm_participantId = ''inj1bob'', rm_secret = ''x'', rm_timestamp = 1700000031000\<rparr>
     \<in> set (verifyReveals
     [\<lparr>cm_participantId = ''inj1org'',
       cm_commitment = ''2a8abfa8cb9906290437854193ca6bca41d4d4e26d1d454bd66a35158095e737'',
       cm_timestamp = 1700000000000\<rparr>,
      \<lparr>cm_participantId = ''inj1bob'',
       cm_commitment = ''2d711642b726b04401627ca9fbac32f5c8530fb1903cc4db02258717921a4881'',
       cm_timestamp = 1700000001000\<rparr>]
     [\<lparr>rm_participantId = ''inj1bob'', rm_secret = ''x'', rm_timestamp = 1700000031000\<rparr>,
      \<lparr>rm_participantId = ''inj1carol'', rm_secret = ''y'', rm_timestamp = 1700000032000\<rparr>]) \<and>
   \<lparr>rm_participantId = ''inj1carol'', rm_secret = ''y'', rm_timestamp = 1700000032000\<rparr>
     \<notin> set (verifyReveals
     [\<lparr>cm_participantId = ''inj1org'',
       cm_commitment = ''2a8abfa8cb9906290437854193ca6bca41d4d4e26d1d454bd66a35158095e737'',
       cm_timestamp = 1700000000000\<rparr>,
      \<lparr>cm_participantId = ''inj1bob'',
       cm_commitment = ''2d711642b726b04401627ca9fbac32f5c8530fb1903cc4db02258717921a4881'',
       cm_timestamp = 1700000001000\<rparr>]
     [\<lparr>rm_participantId = ''inj1bob'', rm_secret = ''x'', rm_timestamp = 1700000031000\<rparr>,
      \<lparr>rm_participantId = ''inj1carol'', rm_secret = ''y'', rm_timestamp = 1700000032000\<rparr>]) \<and>
   \<lparr>r_address = ''inj1bob'', r_secret = ''x'', r_timestamp = 1700000031000\<rparr>
     \<in> set (runGiveaway_validReveals
     [\<lparr>c_address = ''inj1bob'',
       c_commitment = ''2d711642b726b04401627ca9fbac32f5c8530fb1903cc4db02258717921a4881'',
       c_timestamp = 1700000001000\<rparr>]
     [\<lparr>r_address = ''inj1bob'', r_secret = ''x'', r_timestamp = 1700000031000\<rparr>])"
proof -
  let ?cs = "[\<lparr>cm_participantId = ''inj1org'',
       cm_commitment = ''2a8abfa8cb9906290437854193ca6bca41d4d4e26d1d454bd66a35158095e737'',
       cm_timestamp = 1700000000000\<rparr>,
      \<lparr>cm_participantId = ''inj1bob'',
       cm_commitment = ''2d711642b726b04401627ca9fbac32f5c8530fb1903cc4db02258717921a4881'',
       cm_timestamp = 1700000001000\<rparr>]"
  let ?rs = "[\<lparr>rm_participantId = ''inj1bob'', rm_secret = ''x'', rm_timestamp = 1700000031000\<rparr>,
      \<lparr>rm_participantId = ''inj1carol'', rm_secret = ''y'', rm_timestamp = 1700000032000\<rparr>]"
  let ?fc = "[\<lparr>c_address = ''inj1bob'',
       c_commitment = ''2d711642b726b04401627ca9fbac32f5c8530fb1903cc4db02258717921a4881'',
       c_timestamp = 1700000001000\<rparr>]"
  let ?fr = "[\<lparr>r_address = ''inj1bob'', r_secret = ''x'', r_timestamp = 1700000031000\<rparr>]"
  have d: "distinct (map cm_participantId ?cs)" by simp
  note bob = valid_reveals_characterised [of
      "\<lparr>rm_participantId = ''inj1bob'', rm_secret = ''x'', rm_timestamp = 1700000031000\<rparr>" ?cs ?rs
      "\<lparr>r_address = ''inj1bob'', r_secret = ''x'', r_timestamp = 1700000031000\<rparr>" ?fc ?fr]
  note carol = valid_reveals_characterised [of
      "\<lparr>rm_participantId = ''inj1carol'', rm_secret = ''y'', rm_timestamp = 1700000032000\<rparr>" ?cs ?rs
      "\<lparr>r_address = ''inj1bob'', r_secret = ''x'', r_timestamp = 1700000031000\<rparr>" ?fc ?fr]
  have 1: "\<lparr>rm_participantId = ''inj1bob'', rm_secret = ''x'', rm_timestamp = 1700000031000\<rparr>
     \<in> set (verifyReveals ?cs ?rs)"
    using bob d by (simp add: hashSecret_x)
  have 2: "\<lparr>rm_participantId = ''inj1carol'', rm_secret = ''y'', rm_timestamp = 1700000032000\<rparr>
     \<notin> set (verifyReveals ?cs ?rs)"
    using carol d by simp
  have 3: "\<lparr>r_address = ''inj1bob'', r_secret = ''x'', r_timestamp = 1700000031000\<rparr>
     \<in> set (runGiveaway_validReveals ?fc ?fr)"
    using bob by (simp add: generateCommitment_hashSecret hashSecret_x)
  from d 1 2 3 show ?thesis by blast
qed

text \<open>
  C5, as amended. No collection is keyed by sender: the callbacks of \<^verbatim>\<open>runGiveaway\<close>
  append every parsed message that does not carry the organizer's own address, and the
  listeners of \<^verbatim>\<open>selectWinner\<close> append every parsed commitment with a non-empty
  hash and every parsed reveal with a non-empty secret, whether or not the sender is
  already recorded. In \<^verbatim>\<open>selectWinner\<close> a commitment that arrives after all others,
  from a sender already recorded, changes neither the random seed nor the winner.
\<close>

theorem contributions_are_appended:
  "(c_address data \<noteq> address \<longrightarrow>
      commitCallback address commitments (Some (Returns data)) = Inr (commitments @ [data])) \<and>
   (r_address rdata \<noteq> address \<longrightarrow>
      revealCallback address reveals (Some (Returns rdata)) = Inr (reveals @ [rdata])) \<and>
   (cm_commitment cdata \<noteq> [] \<longrightarrow>
      commitListener commits (Some (Returns (CommitData cdata))) = Inr (commits @ [cdata])) \<and>
   (rm_secret sdata \<noteq> [] \<longrightarrow>
      revealListener rs (Some (Returns (RevealData sdata))) = Inr (rs @ [sdata])) \<and>
   (cm_participantId dup \<in> cm_participantId ` set
        (deliver commitListener
           [\<lparr>cm_participantId = org, cm_commitment = hashSecret s, cm_timestamp = n1\<rparr>] cm) \<longrightarrow>
      randomSeed (selectWinner ps org s n1 n2 n3 n4 (cm @ [Some (Returns (CommitData dup))]) rm) =
        randomSeed (selectWinner ps org s n1 n2 n3 n4 cm rm) \<and>
      winner (selectWinner ps org s n1 n2 n3 n4 (cm @ [Some (Returns (CommitData dup))]) rm) =
        winner (selectWinner ps org s n1 n2 n3 n4 cm rm))"
proof (intro conjI impI)
  assume "c_address data \<noteq> address"
  then show "commitCallback address commitments (Some (Returns data)) = Inr (commitments @ [data])"
    by (simp add: commitCallback_def)
next
  assume "r_address rdata \<noteq> address"
  then show "revealCallback address reveals (Some (Returns rdata)) = Inr (reveals @ [rdata])"
    by (simp add: revealCallback_def)
next
  assume "cm_commitment cdata \<noteq> []"
  then show "commitListener commits (Some (Returns (CommitData cdata))) = Inr (commits @ [cdata])"
    by (simp add: commitListener_def)
next
  assume "rm_secret sdata \<noteq> []"
  then show "revealListener rs (Some (Returns (RevealData sdata))) = Inr (rs @ [sdata])"
    by (simp add: revealListener_def)
next
  assume dup: "cm_participantId dup \<in> cm_participantId ` set
        (deliver commitListener
           [\<lparr>cm_participantId = org, cm_commitment = hashSecret s, cm_timestamp = n1\<rparr>] cm)"
  then show seed:
    "randomSeed (selectWinner ps org s n1 n2 n3 n4 (cm @ [Some (Returns (CommitData dup))]) rm) =
        randomSeed (selectWinner ps org s n1 n2 n3 n4 cm rm)"
    by (simp add: randomSeed_selectWinner commits_after_later_commit verifyReveals_later_commit)
  show "winner (selectWinner ps org s n1 n2 n3 n4 (cm @ [Some (Returns (CommitData dup))]) rm) =
        winner (selectWinner ps org s n1 n2 n3 n4 cm rm)"
    by (simp only: winner_selectWinner seed)
qed

text \<open>
  The claim as stated fails: a second commitment of \<^verbatim>\<open>inj1bob\<close> with another hash is
  recorded next to the first, and in \<^verbatim>\<open>runGiveaway\<close> it changes the outcome. With
  the second commitment the reveal \<^verbatim>\<open>y\<close> of \<^verbatim>\<open>inj1bob\<close> becomes valid, the seed
  changes and the winner is \<^verbatim>\<open>inj1alice\<close> instead of \<^verbatim>\<open>inj1bob\<close>.
\<close>

theorem second_commitment_is_recorded:
  "map c_commitment (deliver (commitCallback ''inj1org'')
     [\<lparr>c_address = ''inj1org'',
       c_commitment = ''64dee9a68cca923e3948c71b896a4dbb5ff24220f7c39977bbd914418284b5c2'',
       c_timestamp = 1700000000000\<rparr>]
     [Some (Returns \<lparr>c_address = ''inj1bob'',
        c_commitment = ''2d711642b726b04401627ca9fbac32f5c8530fb1903cc4db02258717921a4881'',
        c_timestamp = 1700000001000\<rparr>),
      Some (Returns \<lparr>c_address = ''inj1bob'',
        c_commitment = ''a1fce4363854ff888cff4b8e7875d600c2682390412a8cf79b37d0b11148b0fa'',
        c_timestamp = 1700000002000\<rparr>)]) =
     [''64dee9a68cca923e3948c71b896a4dbb5ff24220f7c39977bbd914418284b5c2'',
      ''2d711642b726b04401627ca9fbac32f5c8530fb1903cc4db02258717921a4881'',
      ''a1fce4363854ff888cff4b8e7875d600c2682390412a8cf79b37d0b11148b0fa''] \<and>
   runGiveaway ''inj1org'' (''inj1alice'' @ [CHR 0x0A] @ ''inj1bob'' @ [CHR 0x0A] @ ''inj1carol'')
       ''0b0e7a3c-5d51-4c1e-9a57-2f6d8c3b9e10'' 1700000000000 1700000030000 1700000060000
     [Some (Returns \<lparr>c_address = ''inj1bob'',
        c_commitment = ''2d711642b726b04401627ca9fbac32f5c8530fb1903cc4db02258717921a4881'',
        c_timestamp = 1700000001000\<rparr>)]
     [Some (Returns \<lparr>r_address = ''inj1bob'', r_secret = ''y'', r_timestamp = 1700000031000\<rparr>)] =
     Inr \<lparr>winner = Some ''inj1bob'',
          timestamp = 1700000060000,
          participants = [''inj1alice'', ''inj1bob'', ''inj1carol''],
          randomSeed = ''64dee9a68cca923e3948c71b896a4dbb5ff24220f7c39977bbd914418284b5c2'',
          verificationHash = ''64dee9a68cca923e3948c71b896a4dbb5ff24220f7c39977bbd914418284b5c2''\<rparr> \<and>
   runGiveaway ''inj1org'' (''inj1alice'' @ [CHR 0x0A] @ ''inj1bob'' @ [CHR 0x0A] @ ''inj1carol'')
       ''0b0e7a3c-5d51-4c1e-9a57-2f6d8c3b9e10'' 1700000000000 1700000030000 1700000060000
     [Some (Returns \<lparr>c_address = ''inj1bob'',
        c_commitment = ''2d711642b726b04401627ca9fbac32f5c8530fb1903cc4db02258717921a4881'',
        c_timestamp = 1700000001000\<rparr>),
      Some (Returns \<lparr>c_address = ''inj1bob'',
        c_commitment = ''a1fce4363854ff888cff4b8e7875d600c2682390412a8cf79b37d0b11148b0fa'',
        c_timestamp = 1700000002000\<rparr>)]
     [Some (Returns \<lparr>r_address = ''inj1bob'', r_secret = ''y'', r_timestamp = 1700000031000\<rparr>)] =
     Inr \<lparr>winner = Some ''inj1alice'',
          timestamp = 1700000060000,
          participants = [''inj1alice'', ''inj1bob'', ''inj1carol''],
          randomSeed = ''9edf3f2a2628fd814503bd41e4dfba5d1d750e10ba5894fe916a86b8c0032de1'',
          verificationHash = ''9edf3f2a2628fd814503bd41e4dfba5d1d750e10ba5894fe916a86b8c0032de1''\<rparr>"
  by (simp add: runGiveaway_def text_eval commitCallback_def revealCallback_def
      runGiveaway_validReveals_def runGiveaway_finalHash_def Let_def
      generateCommitment_uuid generateCommitment_uuid_y generateCommitment_hashSecret [of "''y''"]
      hashSecret_y)
    (simp add: runGiveaway_winnerIndex_def parse_eval)

text \<open>The amended statement at concrete messages of one sender.\<close>

theorem contributions_are_appended_witness:
  "c_address \<lparr>c_address = ''inj1bob'',
        c_commitment = ''a1fce4363854ff888cff4b8e7875d600c2682390412a8cf79b37d0b11148b0fa'',
        c_timestamp = 1700000002000\<rparr> \<noteq> ''inj1org'' \<and>
   commitCallback ''inj1org''
     [\<lparr>c_address = ''inj1bob'',
       c_commitment = ''2d711642b726b04401627ca9fbac32f5c8530fb1903cc4db02258717921a4881'',
       c_timestamp = 1700000001000\<rparr>]
     (Some (Returns \<lparr>c_address = ''inj1bob'',
        c_commitment = ''a1fce4363854ff888cff4b8e7875d600c2682390412a8cf79b37d0b11148b0fa'',
        c_timestamp = 1700000002000\<rparr>)) =
     Inr [\<lparr>c_address = ''inj1bob'',
       c_commitment = ''2d711642b726b04401627ca9fbac32f5c8530fb1903cc4db02258717921a4881'',
       c_timestamp = 1700000001000\<rparr>,
      \<lparr>c_address = ''inj1bob'',
        c_commitment = ''a1fce4363854ff888cff4b8e7875d600c2682390412a8cf79b37d0b11148b0fa'',
        c_timestamp = 1700000002000\<rparr>] \<and>
   r_address \<lparr>r_address = ''inj1bob'', r_secret = ''x'', r_timestamp = 1700000033000\<rparr>
     \<noteq> ''inj1org'' \<and>
   revealCallback ''inj1org''
     [\<lparr>r_address = ''inj1bob'', r_secret = ''x'', r_timestamp = 1700000031000\<rparr>]
     (Some (Returns \<lparr>r_address = ''inj1bob'', r_secret = ''x'', r_timestamp = 1700000033000\<rparr>)) =
     Inr [\<lparr>r_address = ''inj1bob'', r_secret = ''x'', r_timestamp = 1700000031000\<rparr>,
          \<lparr>r_address = ''inj1bob'', r_secret = ''x'', r_timestamp = 1700000033000\<rparr>] \<and>
   cm_commitment \<lparr>cm_participantId = ''inj1bob'',
        cm_commitment = ''a1fce4363854ff888cff4b8e7875d600c2682390412a8cf79b37d0b11148b0fa'',
        cm_timestamp = 1700000002000\<rparr> \<noteq> [] \<and>
   commitListener
     [\<lparr>cm_participantId = ''inj1bob'',
       cm_commitment = ''2d711642b726b04401627ca9fbac32f5c8530fb1903cc4db02258717921a4881'',
       cm_timestamp = 1700000001000\<rparr>]
     (Some (Returns (CommitData \<lparr>cm_participantId = ''inj1bob'',
        cm_commitment = ''a1fce4363854ff888cff4b8e7875d600c2682390412a8cf79b37d0b11148b0fa'',
        cm_timestamp = 1700000002000\<rparr>))) =
     Inr [\<lparr>cm_participantId = ''inj1bob'',
       cm_commitment = ''2d711642b726b04401627ca9fbac32f5c8530fb1903cc4db02258717921a4881'',
       cm_timestamp = 1700000001000\<rparr>,
      \<lparr>cm_participantId = ''inj1bob'',
        cm_commitment = ''a1fce4363854ff888cff4b8e7875d600c2682390412a8cf79b37d0b11148b0fa'',
        cm_timestamp = 1700000002000\<rparr>] \<and>
   rm_secret \<lparr>rm_participantId = ''inj1bob'', rm_secret = ''x'', rm_timestamp = 1700000033000\<rparr>
     \<noteq> [] \<and>
   revealListener
     [\<lparr>rm_participantId = ''inj1bob'', rm_secret = ''x'', rm_timestamp = 1700000031000\<rparr>]
     (Some (Returns (RevealData
        \<lparr>rm_participantId = ''inj1bob'', rm_secret = ''x'', rm_timestamp = 1700000033000\<rparr>))) =
     Inr [\<lparr>rm_participantId = ''inj1bob'', rm_secret = ''x'', rm_timestamp = 1700000031000\<rparr>,
          \<lparr>rm_participantId = ''inj1bob'', rm_secret = ''x'', rm_timestamp = 1700000033000\<rparr>] \<and>
   cm_participantId \<lparr>cm_participantId = ''inj1bob'',
        cm_commitment = ''a1fce4363854ff888cff4b8e7875d600c2682390412a8cf79b37d0b11148b0fa'',
        cm_timestamp = 1700000002000\<rparr> \<in> cm_participantId ` set
     (deliver commitListener
        [\<lparr>cm_participantId = ''inj1org'',
          cm_commitment =
            hashSecret ''00112233445566778899aabbccddeeff00112233445566778899aabbccddeeff'',
          cm_timestamp = 1700000000000\<rparr>]
        [Some (Returns (CommitData \<lparr>cm_participantId = ''inj1bob'',
           cm_commitment = ''2d711642b726b04401627ca9fbac32f5c8530fb1903cc4db02258717921a4881'',
           cm_timestamp = 1700000001000\<rparr>))]) \<and>
   randomSeed (selectWinner [''inj1alice'', ''inj1bob'', ''inj1carol''] ''inj1org''
      ''00112233445566778899aabbccddeeff00112233445566778899aabbccddeeff''
      1700000000000 1700000030000 1700000060000 1700000060001
      ([Some (Returns (CommitData \<lparr>cm_participantId = ''inj1bob'',
           cm_commitment = ''2d711642b726b04401627ca9fbac32f5c8530fb1903cc4db02258717921a4881'',
           cm_timestamp = 1700000001000\<rparr>))] @
       [Some (Returns (CommitData \<lparr>cm_participantId = ''inj1bob'',
           cm_commitment = ''a1fce4363854ff888cff4b8e7875d600c2682390412a8cf79b37d0b11148b0fa'',
           cm_timestamp = 1700000002000\<rparr>))])
      [Some (Returns (RevealData
         \<lparr>rm_participantId = ''inj1bob'', rm_secret = ''y'', rm_timestamp = 1700000031000\<rparr>))]) =
   randomSeed (selectWinner [''inj1alice'', ''inj1bob'', ''inj1carol''] ''inj1org''
      ''00112233445566778899aabbccddeeff00112233445566778899aabbccddeeff''
      1700000000000 1700000030000 1700000060000 1700000060001
      [Some (Returns (CommitData \<lparr>cm_participantId = ''inj1bob'',
           cm_commitment = ''2d711642b726b04401627ca9fbac32f5c8530fb1903cc4db02258717921a4881'',
           cm_timestamp = 1700000001000\<rparr>))]
      [Some (Returns (RevealData
         \<lparr>rm_participantId = ''inj1bob'', rm_secret = ''y'', rm_timestamp = 1700000031000\<rparr>))])"
proof -
  let ?fc1 = "\<lparr>c_address = ''inj1bob'',
       c_commitment = ''2d711642b726b04401627ca9fbac32f5c8530fb1903cc4db02258717921a4881'',
       c_timestamp = 1700000001000\<rparr>"
  let ?fc2 = "\<lparr>c_address = ''inj1bob'',
        c_commitment = ''a1fce4363854ff888cff4b8e7875d600c2682390412a8cf79b37d0b11148b0fa'',
        c_timestamp = 1700000002000\<rparr>"
  let ?fr1 = "\<lparr>r_address = ''inj1bob'', r_secret = ''x'', r_timestamp = 1700000031000\<rparr>"
  let ?fr2 = "\<lparr>r_address = ''inj1bob'', r_secret = ''x'', r_timestamp = 1700000033000\<rparr>"
  let ?c1 = "\<lparr>cm_participantId = ''inj1bob'',
       cm_commitment = ''2d711642b726b04401627ca9fbac32f5c8530fb1903cc4db02258717921a4881'',
       cm_timestamp = 1700000001000\<rparr>"
  let ?c2 = "\<lparr>cm_participantId = ''inj1bob'',
        cm_commitment = ''a1fce4363854ff888cff4b8e7875d600c2682390412a8cf79b37d0b11148b0fa'',
        cm_timestamp = 1700000002000\<rparr>"
  let ?r1 = "\<lparr>rm_participantId = ''inj1bob'', rm_secret = ''x'', rm_timestamp = 1700000031000\<rparr>"
  let ?r2 = "\<lparr>rm_participantId = ''inj1bob'', rm_secret = ''x'', rm_timestamp = 1700000033000\<rparr>"
  have h1: "c_address ?fc2 \<noteq> ''inj1org''" by simp
  have h2: "r_address ?fr2 \<noteq> ''inj1org''" by simp
  have h3: "cm_commitment ?c2 \<noteq> []" by simp
  have h4: "rm_secret ?r2 \<noteq> []" by simp
  have h5: "cm_participantId ?c2 \<in> cm_participantId ` set
     (deliver commitListener
        [\<lparr>cm_participantId = ''inj1org'',
          cm_commitment =
            hashSecret ''00112233445566778899aabbccddeeff00112233445566778899aabbccddeeff'',
          cm_timestamp = 1700000000000\<rparr>]
        [Some (Returns (CommitData ?c1))])"
    by (simp add: commitListener_def)
  note inst = contributions_are_appended [of ?fc2 "''inj1org''" "[?fc1]" ?fr2 "[?fr1]"
      ?c2 "[?c1]" ?r2 "[?r1]" ?c2 "''inj1org''"
      "''00112233445566778899aabbccddeeff00112233445566778899aabbccddeeff''" 1700000000000
      "[Some (Returns (CommitData ?c1))]" "[''inj1alice'', ''inj1bob'', ''inj1carol'']"
      1700000030000 1700000060000 1700000060001
      "[Some (Returns (RevealData
         \<lparr>rm_participantId = ''inj1bob'', rm_secret = ''y'', rm_timestamp = 1700000031000\<rparr>))]"]
  from inst h1 h2 h3 h4 h5 show ?thesis
    by (simp only: append_Nil append_Cons) blast
qed

text \<open>
  C6. The claim: with no participants the selection fails at once with an explicit
  error. \<^verbatim>\<open>runGiveaway\<close> returns early with a status (lemmas
  \<open>runGiveaway_blank_text\<close> and \<open>runGiveaway_result\<close>); \<^verbatim>\<open>selectWinner\<close> has no such
  test. Called with an empty list it takes the remainder by zero, which is \<^verbatim>\<open>NaN\<close>,
  and returns a result whose winner is \<^verbatim>\<open>undefined\<close>.
\<close>

theorem selectWinner_empty_participants:
  "winner (selectWinner [] ''inj1org''
      ''00112233445566778899aabbccddeeff00112233445566778899aabbccddeeff''
      1700000000000 1700000030000 1700000060000 1700000060001 [] []) = None \<and>
   participants (selectWinner [] ''inj1org''
      ''00112233445566778899aabbccddeeff00112233445566778899aabbccddeeff''
      1700000000000 1700000030000 1700000060000 1700000060001 [] []) = [] \<and>
   randomSeed (selectWinner [] ''inj1org''
      ''00112233445566778899aabbccddeeff00112233445566778899aabbccddeeff''
      1700000000000 1700000030000 1700000060000 1700000060001 [] []) =
     ''2a8abfa8cb9906290437854193ca6bca41d4d4e26d1d454bd66a35158095e737''"
  by (simp add: winner_selectWinner randomSeed_selectWinner selectWinner_finalSeed_def
      hashSecret_organizer selectWinner_winnerIndex_def js_rem_def index_js_def
      split: option.split)

text \<open>
  C7. The claim: the verification hash of every result is the digest of participants,
  winner, seed, organizer, commitments, valid reveals and a time stamp, distinct from
  the random seed. \<^verbatim>\<open>selectWinner\<close> computes it that way (lemma
  \<open>verificationHash_selectWinner\<close>); \<^verbatim>\<open>runGiveaway\<close> stores the random seed itself
  in both fields.
\<close>

theorem runGiveaway_verificationHash_is_seed:
  "(case runGiveaway ''inj1org''
        (''inj1alice'' @ [CHR 0x0A] @ ''inj1bob'' @ [CHR 0x0A] @ ''inj1carol'')
        ''0b0e7a3c-5d51-4c1e-9a57-2f6d8c3b9e10'' 1700000000000 1700000030000 1700000060000 [] [] of
      Inl e \<Rightarrow> None
    | Inr r \<Rightarrow> Some (randomSeed r, verificationHash r)) =
   Some (''64dee9a68cca923e3948c71b896a4dbb5ff24220f7c39977bbd914418284b5c2'',
         ''64dee9a68cca923e3948c71b896a4dbb5ff24220f7c39977bbd914418284b5c2'')"
  by (simp add: runGiveaway_def text_eval commitCallback_def revealCallback_def
      runGiveaway_validReveals_def runGiveaway_finalHash_def generateCommitment_uuid Let_def)

text \<open>
  C8. The claim: a payload that does not parse is dropped and the exception never
  leaves the handler. The listeners of \<^verbatim>\<open>selectWinner\<close> catch it (lemma
  \<open>listeners_drop_bad_json\<close>); the callbacks of \<^verbatim>\<open>runGiveaway\<close> call
  \<^verbatim>\<open>JSON.parse\<close> unguarded, so the \<^verbatim>\<open>SyntaxError\<close> leaves the callback. The
  collected arrays are unchanged in both (lemma \<open>callbacks_keep_state_on_bad_json\<close>).
\<close>

theorem commitCallback_raises_on_bad_json:
  "commitCallback ''inj1org''
     [\<lparr>c_address = ''inj1org'',
       c_commitment = ''64dee9a68cca923e3948c71b896a4dbb5ff24220f7c39977bbd914418284b5c2'',
       c_timestamp = 1700000000000\<rparr>] (Some Throws) = Inl SyntaxError \<and>
   revealCallback ''inj1org''
     [\<lparr>r_address = ''inj1org'', r_secret = ''0b0e7a3c-5d51-4c1e-9a57-2f6d8c3b9e10'',
       r_timestamp = 1700000030000\<rparr>] (Some Throws) = Inl SyntaxError"
  by (simp add: commitCallback_def revealCallback_def)

text \<open>
  C9. The claim: for every participant list the winner index lies between 0 and the
  length of the list, so that it is a position of the array. For a non-empty list that
  holds in both implementations (lemma \<open>winnerIndex_in_range_nonempty\<close>), and
  \<^verbatim>\<open>runGiveaway\<close> never computes an index for an empty one. \<^verbatim>\<open>selectWinner\<close> does:
  called with no participants its index is \<^verbatim>\<open>NaN\<close>, which is no position, and it is
  used to read the winner.
\<close>

theorem selectWinner_index_of_empty_list:
  "selectWinner_winnerIndex []
     (randomSeed (selectWinner [] ''inj1org''
        ''00112233445566778899aabbccddeeff00112233445566778899aabbccddeeff''
        1700000000000 1700000030000 1700000060000 1700000060001 [] [])) = None \<and>
   index_js ([] :: string list) None = None"
  by (simp add: selectWinner_winnerIndex_def js_rem_def index_js_def split: option.split)

text \<open>
  C10. The outcome of \<^verbatim>\<open>verifyResult\<close> does not depend on the organizer address it
  is given.
\<close>

theorem verifyResult_ignores_organizer:
  "verifyResult result o1 = verifyResult result o2"
  by (simp add: verifyResult_def)

end
